theory Spec2Isabelle
  imports Complex_Main "HOL-Library.Log_Nat"
begin

section \<open>Strings\<close>

text \<open>
  A JavaScript string is a sequence of UTF-16 code units; \<open>length\<close> counts code units.
  A code unit is modelled by its number, so that every string the page can hold is covered
  (the sign for infinity, U+221E, is the unit 8734).  \<open>str\<close> embeds an ASCII literal.
\<close>

type_synonym jsstring = "nat list"

definition str :: "string \<Rightarrow> jsstring" where
  "str s = map of_char s"

text \<open>The character class \<^verbatim>\<open>[0-9]\<close>; \<^verbatim>\<open>value.replace(/[^0-9]/g, '')\<close> is \<open>filter isDigit value\<close>.\<close>

definition isDigit :: "nat \<Rightarrow> bool" where
  "isDigit c = (48 \<le> c \<and> c \<le> 57)"

text \<open>The integer that a string of decimal digits denotes (the empty string gives 0).\<close>

definition digit_value :: "jsstring \<Rightarrow> nat" where
  "digit_value ds = foldl (\<lambda>n c. 10 * n + (c - 48)) 0 ds"

text \<open>WhiteSpace and LineTerminator of ECMAScript, which \<^verbatim>\<open>parseInt\<close> and \<^verbatim>\<open>parseFloat\<close> skip.\<close>

definition isWhiteSpace :: "nat \<Rightarrow> bool" where
  "isWhiteSpace c =
     (c \<in> {9, 10, 11, 12, 13, 32, 160, 5760, 8232, 8233, 8239, 8287, 12288, 65279}
      \<or> (8192 \<le> c \<and> c \<le> 8202))"

section \<open>Numbers\<close>

text \<open>
  A JavaScript Number is an IEEE 754 double: NaN, the two infinities, or a finite value,
  kept here as the rational it denotes.  The two zeros are one value \<open>Fin 0\<close> (both are
  falsy, and no property below observes the sign of a zero).

  \<open>num_of_rat q\<close> is the Number value for the mathematical value \<open>q\<close>: \<open>q\<close> rounded to
  53 significant bits, ties to even, with the exponent no smaller than that of the
  subnormals (\<open>2 powi (- 1074)\<close> is the least positive double), and an infinity when the
  rounded magnitude reaches \<open>2 ^ 1024\<close>.
\<close>

datatype number = NaN | PInf | NInf | Fin rat

text \<open>\<open>ilog2 q\<close> is the integer \<open>e\<close> with \<open>2 powi e \<le> q < 2 powi (e + 1)\<close>, for \<open>0 < q\<close>.\<close>

definition ilog2 :: "rat \<Rightarrow> int" where
  "ilog2 q = (let (a, b) = quotient_of q; d = bitlen a - bitlen b
              in if 2 powi d \<le> q then d else d - 1)"

text \<open>Rounding to the nearest integer, a tie going to the even neighbour.\<close>

definition rne :: "rat \<Rightarrow> int" where
  "rne x = (let f = \<lfloor>x\<rfloor>; r = x - of_int f
            in if r < 1 / 2 then f else if 1 / 2 < r then f + 1
               else if even f then f else f + 1)"

definition round_double :: "rat \<Rightarrow> rat" where
  "round_double q = (let e = max (ilog2 q - 52) (- 1074)
                     in of_int (rne (q / 2 powi e)) * 2 powi e)"

definition num_of_rat :: "rat \<Rightarrow> number" where
  "num_of_rat q =
     (if q = 0 then Fin 0
      else let r = round_double \<bar>q\<bar>
           in if r \<noteq> 0 \<and> 1024 \<le> ilog2 r then (if 0 < q then PInf else NInf)
              else Fin (sgn q * r))"

text \<open>The sign rule for a product in which one factor is infinite and the other has sign \<open>s\<close>.\<close>

definition inf_of :: "rat \<Rightarrow> number" where
  "inf_of s = (if s = 0 then NaN else if 0 < s then PInf else NInf)"

text \<open>The operator \<^verbatim>\<open>*\<close> on Numbers: the exact product, rounded.\<close>

fun fmul :: "number \<Rightarrow> number \<Rightarrow> number" where
  "fmul NaN y = NaN"
| "fmul x NaN = NaN"
| "fmul (Fin a) (Fin b) = num_of_rat (a * b)"
| "fmul (Fin a) PInf = inf_of a"
| "fmul (Fin a) NInf = inf_of (- a)"
| "fmul PInf (Fin b) = inf_of b"
| "fmul NInf (Fin b) = inf_of (- b)"
| "fmul PInf PInf = PInf"
| "fmul PInf NInf = NInf"
| "fmul NInf PInf = NInf"
| "fmul NInf NInf = PInf"

text \<open>ToBoolean on a Number, and \<^verbatim>\<open>x || d\<close> for Numbers.\<close>

definition falsy :: "number \<Rightarrow> bool" where
  "falsy x = (x = NaN \<or> x = Fin 0)"

definition js_or :: "number \<Rightarrow> number \<Rightarrow> number" where
  "js_or x d = (if falsy x then d else x)"

text \<open>The comparison \<^verbatim>\<open>x > 0\<close>.\<close>

definition positive :: "number \<Rightarrow> bool" where
  "positive x = (case x of Fin q \<Rightarrow> 0 < q | PInf \<Rightarrow> True | _ \<Rightarrow> False)"

section \<open>Platform functions the source calls\<close>

text \<open>
  \<^verbatim>\<open>parseInt(s, 10)\<close>: leading white space is skipped, an optional sign is read, and the
  longest prefix of decimal digits is the integer; with no digit the result is NaN, otherwise
  the Number value for the signed integer.  (ECMAScript lets an implementation replace the
  digits after the twentieth significant one by zeros; the model rounds the exact value.)
\<close>

definition read_sign :: "jsstring \<Rightarrow> bool \<times> jsstring" where
  "read_sign t = (case t of [] \<Rightarrow> (False, t)
                   | c # r \<Rightarrow> if c = 45 then (True, r) else if c = 43 then (False, r) else (False, t))"

definition parseInt :: "jsstring \<Rightarrow> number" where
  "parseInt s =
     (let (neg, u) = read_sign (dropWhile isWhiteSpace s);
          z = takeWhile isDigit u
      in if z = [] then NaN
         else num_of_rat ((if neg then - 1 else 1) * of_nat (digit_value z)))"

text \<open>
  \<^verbatim>\<open>parseFloat(s)\<close>: leading white space is skipped and the longest prefix that is a
  StrDecimalLiteral is read: a sign, then \<^verbatim>\<open>Infinity\<close> or digits with an optional fraction
  and an optional exponent.  With no such prefix the result is NaN.
\<close>

definition exponent_part :: "jsstring \<Rightarrow> int" where
  "exponent_part r =
     (case r of [] \<Rightarrow> 0
      | c # r1 \<Rightarrow>
          if c = 101 \<or> c = 69 then
            (let (neg, r2) = read_sign r1; ds = takeWhile isDigit r2
             in if ds = [] then 0
                else if neg then - int (digit_value ds) else int (digit_value ds))
          else 0)"

definition parseFloat :: "jsstring \<Rightarrow> number" where
  "parseFloat s =
     (let (neg, u) = read_sign (dropWhile isWhiteSpace s)
      in if take 8 u = str ''Infinity'' then (if neg then NInf else PInf)
         else
           let ip = takeWhile isDigit u; r1 = dropWhile isDigit u;
               (fp, r2) = (case r1 of [] \<Rightarrow> ([], r1)
                           | c # r \<Rightarrow> if c = 46 then (takeWhile isDigit r, dropWhile isDigit r)
                                      else ([], r1))
           in if ip = [] \<and> fp = [] then NaN
              else num_of_rat
                     ((if neg then - 1 else 1)
                      * (of_nat (digit_value ip) + of_nat (digit_value fp) / 10 ^ length fp)
                      * 10 powi exponent_part r2))"

text \<open>The decimal digits of a natural number, most significant first.\<close>

fun digits_of :: "nat \<Rightarrow> jsstring" where
  "digits_of n = (if n < 10 then [48 + n] else digits_of (n div 10) @ [48 + n mod 10])"

declare digits_of.simps [simp del]

text \<open>Grouping by three with a comma (unit 44), on the digits least significant first.\<close>

fun group3 :: "jsstring \<Rightarrow> jsstring" where
  "group3 (a # b # c # d # r) = a # b # c # 44 # group3 (d # r)"
| "group3 ds = ds"

definition grouped :: "nat \<Rightarrow> jsstring" where
  "grouped n = rev (group3 (rev (digits_of n)))"

text \<open>
  \<^verbatim>\<open>x.toLocaleString('en-AU')\<close> with the default options: the magnitude rounded to at most
  three fraction digits (a tie away from zero), the integer part grouped by three with
  commas, the fraction after a full stop without trailing zeros.  The digits are those of
  the exact value of the double, as ECMA-402 words it; engines may print a double above
  \<open>2 ^ 53\<close> with its shortest round-trip digits followed by zeros instead, and nothing below
  relies on the rendering of such values.
\<close>

definition fraction_digits :: "nat \<Rightarrow> jsstring" where
  "fraction_digits f =
     (if f = 0 then []
      else 46 # rev (dropWhile (\<lambda>c. c = 48)
                      [48 + f mod 10, 48 + f div 10 mod 10, 48 + f div 100 mod 10]))"

definition toLocaleString :: "number \<Rightarrow> jsstring" where
  "toLocaleString x =
     (case x of
        NaN \<Rightarrow> str ''NaN''
      | PInf \<Rightarrow> [8734]
      | NInf \<Rightarrow> [45, 8734]
      | Fin q \<Rightarrow>
          (let n = nat \<lfloor>\<bar>q\<bar> * 1000 + 1 / 2\<rfloor>
           in (if q < 0 then [45] else []) @ grouped (n div 1000) @ fraction_digits (n mod 1000)))"

section \<open>The calculator: pure parts\<close>

text \<open>\<^verbatim>\<open>formatNumberWithCommas(value)\<close>; the empty string is falsy.\<close>

definition formatNumberWithCommas :: "jsstring \<Rightarrow> jsstring" where
  "formatNumberWithCommas v =
     (let num = filter isDigit v
      in if num = [] then [] else toLocaleString (parseInt num))"

text \<open>\<^verbatim>\<open>parseFormattedNumber(value)\<close>.\<close>

definition parseFormattedNumber :: "jsstring \<Rightarrow> number" where
  "parseFormattedNumber v =
     (let cleaned = filter isDigit v
      in js_or (parseInt cleaned) (Fin 0))"

text \<open>
  The multiple that \<^verbatim>\<open>calculate\<close> uses, from the text of the field:
  \<^verbatim>\<open>parseFloat(document.getElementById('bookMultiple').value) || 3\<close>.
\<close>

definition read_multiple :: "jsstring \<Rightarrow> number" where
  "read_multiple text = js_or (parseFloat text) (Fin 3)"

text \<open>
  The figures that \<^verbatim>\<open>calculate\<close> derives from the three inputs (the block from
  \<^verbatim>\<open>annualTrail\<close> to \<^verbatim>\<open>accessLabel\<close>).  The literals 12, 0.5 and 3 are doubles;
  0.7 is not, and denotes \<open>num_of_rat (7 / 10)\<close>.
\<close>

record figures =
  annualTrail :: number
  bookValue :: number
  workingCapital :: number
  acquisitionFinance :: number
  isAcquisition :: bool
  accessAmount :: number
  accessPercent :: jsstring
  accessLabel :: jsstring

definition derive :: "number \<Rightarrow> number \<Rightarrow> jsstring \<Rightarrow> figures" where
  "derive monthlyTrail multiple purpose =
     (let annualTrail = fmul monthlyTrail (Fin 12);
          bookValue = fmul annualTrail multiple;
          workingCapital = fmul bookValue (Fin (1 / 2));
          acquisitionFinance = fmul bookValue (num_of_rat (7 / 10));
          isAcquisition = (purpose = str ''acquisition'');
          accessAmount = (if isAcquisition then acquisitionFinance else workingCapital);
          accessPercent = (if isAcquisition then str ''70%'' else str ''50%'');
          accessLabel = (if isAcquisition then str ''Acquisition Finance''
                         else str ''Working Capital'')
      in \<lparr>annualTrail = annualTrail, bookValue = bookValue,
          workingCapital = workingCapital, acquisitionFinance = acquisitionFinance,
          isAcquisition = isAcquisition, accessAmount = accessAmount,
          accessPercent = accessPercent, accessLabel = accessLabel\<rparr>)"

section \<open>The page\<close>

text \<open>
  The document as the script sees it: the elements it looks up by id (each with the text it
  shows, and for a field its value and caret), the radio inputs, and the module variable
  \<^verbatim>\<open>comparisonChart\<close>.  A chart is the part of the configuration that depends on the
  figures; the chart library is taken to be loaded.
\<close>

record element =
  el_value :: jsstring
  textContent :: jsstring
  selectionStart :: nat
  selectionEnd :: nat

record radio =
  radio_name :: jsstring
  radio_value :: jsstring
  checked :: bool

record chart =
  chart_labels :: "jsstring list"
  chart_data :: "number list"
  chart_colors :: "jsstring list"

record page =
  elements :: "string \<rightharpoonup> element"
  radios :: "radio list"
  comparisonChart :: "chart option"

text \<open>
  Reading or writing a property of \<^verbatim>\<open>null\<close> throws a TypeError.  A call either returns
  or throws, in both cases leaving the page as it is at that moment.
\<close>

datatype error = TypeError

datatype outcome = Returned page | Threw error page

fun page_of :: "outcome \<Rightarrow> page" where
  "page_of (Returned p) = p"
| "page_of (Threw e p) = p"

text \<open>Sequencing of statements: a throw ends the function.\<close>

fun and_then :: "outcome \<Rightarrow> (page \<Rightarrow> outcome) \<Rightarrow> outcome" where
  "and_then (Returned p) f = f p"
| "and_then (Threw e p) f = Threw e p"

text \<open>\<^verbatim>\<open>document.getElementById(i).textContent = t\<close>.\<close>

definition set_textContent :: "string \<Rightarrow> jsstring \<Rightarrow> page \<Rightarrow> outcome" where
  "set_textContent i t p =
     (case elements p i of
        None \<Rightarrow> Threw TypeError p
      | Some e \<Rightarrow> Returned (p\<lparr>elements := (elements p)(i \<mapsto> e\<lparr>textContent := t\<rparr>)\<rparr>))"

text \<open>
  The formatters of the platform whose output only feeds the display:
  \<^verbatim>\<open>Intl.NumberFormat('en-AU', {style: 'currency', currency: 'AUD', ...}).format\<close> and
  \<^verbatim>\<open>Number.prototype.toFixed\<close>.  They are parameters of the model.
\<close>

record platform =
  intl_currency :: "number \<Rightarrow> jsstring"
  toFixed :: "number \<Rightarrow> nat \<Rightarrow> jsstring"

definition formatCurrency :: "platform \<Rightarrow> number \<Rightarrow> jsstring" where
  "formatCurrency P amount = intl_currency P amount"

text \<open>
  \<^verbatim>\<open>getSelectedPurpose()\<close>: \<^verbatim>\<open>querySelector\<close> returns the first element matching
  \<^verbatim>\<open>input[name="loanPurpose"]:checked\<close>, or \<^verbatim>\<open>null\<close>.
\<close>

definition getSelectedPurpose :: "page \<Rightarrow> jsstring" where
  "getSelectedPurpose p =
     (case find (\<lambda>r. radio_name r = str ''loanPurpose'' \<and> checked r) (radios p) of
        Some selected \<Rightarrow> radio_value selected
      | None \<Rightarrow> str ''acquisition'')"

text \<open>\<^verbatim>\<open>updateComparisonChart(bookValue, accessAmount, isAcquisition)\<close>: without the canvas
  it returns at once; otherwise the old chart is destroyed and a new one takes its place.\<close>

definition updateComparisonChart :: "number \<Rightarrow> number \<Rightarrow> bool \<Rightarrow> page \<Rightarrow> outcome" where
  "updateComparisonChart bv amount isAcq p =
     (case elements p ''comparisonChart'' of
        None \<Rightarrow> Returned p
      | Some ctx \<Rightarrow>
          (let accessLabel = (if isAcq then str ''Acquisition (70%)''
                              else str ''Working Capital (50%)'');
               accessColor = (if isAcq then str ''#2e7d32'' else str ''#1976d2'')
           in Returned (p\<lparr>comparisonChart :=
                Some \<lparr>chart_labels = [str ''Book Value'', accessLabel],
                      chart_data = [bv, amount],
                      chart_colors = [str ''#f26739'', accessColor]\<rparr>\<rparr>)))"

text \<open>\<^verbatim>\<open>calculate()\<close>.\<close>

definition calculate :: "platform \<Rightarrow> page \<Rightarrow> outcome" where
  "calculate P p =
     (case elements p ''monthlyTrail'' of
        None \<Rightarrow> Threw TypeError p
      | Some monthlyTrailInput \<Rightarrow>
     (case elements p ''bookMultiple'' of
        None \<Rightarrow> Threw TypeError p
      | Some bookMultipleInput \<Rightarrow>
          (let monthlyTrail = parseFormattedNumber (el_value monthlyTrailInput);
               multiple = read_multiple (el_value bookMultipleInput);
               purpose = getSelectedPurpose p;
               f = derive monthlyTrail multiple purpose
           in and_then (and_then (and_then (and_then (and_then (and_then (and_then (and_then
                (set_textContent ''multipleDisplay'' (toFixed P multiple 1 @ str ''x'') p)
                (set_textContent ''displayMonthlyTrail'' (formatCurrency P monthlyTrail)))
                (set_textContent ''annualTrail'' (formatCurrency P (annualTrail f))))
                (set_textContent ''displayMultiple'' (toFixed P multiple 1 @ str ''x'')))
                (set_textContent ''bookValue'' (formatCurrency P (bookValue f))))
                (set_textContent ''accessLabel'' (accessLabel f)))
                (set_textContent ''accessAmount'' (formatCurrency P (accessAmount f))))
                (set_textContent ''accessPercent'' (accessPercent f @ str '' of book value'')))
                (updateComparisonChart (bookValue f) (accessAmount f) (isAcquisition f)))))"

section \<open>Timers and the debounce\<close>

text \<open>
  The timers of the window: each pending timer has a handle, the time at which it is due and
  its callback.  \<open>user\<close> is the state the callbacks act on; \<open>debounceTimer\<close> is the module
  variable of that name.  Time is counted in the unit of \<^verbatim>\<open>setTimeout\<close>.
\<close>

record 'w world =
  user :: 'w
  pending :: "(nat \<times> nat \<times> ('w \<Rightarrow> 'w)) list"
  next_handle :: nat
  now :: nat
  debounceTimer :: "nat option"

definition DEBOUNCE_DELAY :: nat where
  "DEBOUNCE_DELAY = 300"

text \<open>\<^verbatim>\<open>clearTimeout(h)\<close>: a handle that is \<^verbatim>\<open>null\<close> or names no pending timer does nothing.\<close>

definition clearTimeout :: "nat option \<Rightarrow> 'w world \<Rightarrow> 'w world" where
  "clearTimeout h w =
     (case h of None \<Rightarrow> w
      | Some i \<Rightarrow> w\<lparr>pending := filter (\<lambda>t. fst t \<noteq> i) (pending w)\<rparr>)"

text \<open>\<^verbatim>\<open>setTimeout(cb, delay)\<close> returns a fresh handle.\<close>

definition setTimeout :: "('w \<Rightarrow> 'w) \<Rightarrow> nat \<Rightarrow> 'w world \<Rightarrow> nat \<times> 'w world" where
  "setTimeout cb delay w =
     (next_handle w,
      w\<lparr>pending := pending w @ [(next_handle w, now w + delay, cb)],
        next_handle := Suc (next_handle w)\<rparr>)"

text \<open>The function that \<^verbatim>\<open>debounce(func, delay)\<close> returns, called with \<open>args\<close>.\<close>

definition debounce :: "('a \<Rightarrow> 'w \<Rightarrow> 'w) \<Rightarrow> nat \<Rightarrow> 'a \<Rightarrow> 'w world \<Rightarrow> 'w world" where
  "debounce func delay args w =
     (let w1 = clearTimeout (debounceTimer w) w;
          (h, w2) = setTimeout (func args) delay w1
      in w2\<lparr>debounceTimer := Some h\<rparr>)"

text \<open>
  Time passing: the clock advances by \<open>d\<close>, and the timers that are due by then run, the
  earliest first; the others stay pending.
\<close>

definition elapse :: "nat \<Rightarrow> 'w world \<Rightarrow> 'w world" where
  "elapse d w =
     (let t = now w + d;
          due = sort_key (\<lambda>x. fst (snd x)) (filter (\<lambda>x. fst (snd x) \<le> t) (pending w))
      in w\<lparr>user := fold (\<lambda>x u. snd (snd x) u) due (user w),
           pending := filter (\<lambda>x. \<not> fst (snd x) \<le> t) (pending w),
           now := t\<rparr>)"

text \<open>
  \<^verbatim>\<open>debouncedCalculate = debounce(calculate, DEBOUNCE_DELAY)\<close>.  \<^verbatim>\<open>calculate\<close> takes no
  argument, and an exception in a timer callback ends the callback only.
\<close>

definition debouncedCalculate :: "platform \<Rightarrow> 'a \<Rightarrow> page world \<Rightarrow> page world" where
  "debouncedCalculate P = debounce (\<lambda>args p. page_of (calculate P p)) DEBOUNCE_DELAY"

section \<open>The handler of the trail field\<close>

text \<open>
  Assigning \<^verbatim>\<open>input.value\<close> puts the caret at the end of the new text;
  \<^verbatim>\<open>setSelectionRange(s, e)\<close> treats a position beyond the text as its end.
\<close>

definition set_value :: "jsstring \<Rightarrow> element \<Rightarrow> element" where
  "set_value v e = e\<lparr>el_value := v, selectionStart := length v, selectionEnd := length v\<rparr>"

definition setSelectionRange :: "nat \<Rightarrow> nat \<Rightarrow> element \<Rightarrow> element" where
  "setSelectionRange s e inp =
     inp\<lparr>selectionStart := min (min s e) (length (el_value inp)),
         selectionEnd := min e (length (el_value inp))\<rparr>"

text \<open>
  \<^verbatim>\<open>handleCurrencyInput(e)\<close>, where \<open>target\<close> is the id of \<^verbatim>\<open>e.target\<close>, an element of
  the page (the handler is attached to an element that exists).  The lengths and positions
  are small integers, on which the arithmetic of doubles is exact.
\<close>

definition handleCurrencyInput :: "platform \<Rightarrow> string \<Rightarrow> page world \<Rightarrow> page world" where
  "handleCurrencyInput P target w =
     (case elements (user w) target of
        None \<Rightarrow> w
      | Some input \<Rightarrow>
          (let cursorPosition = int (selectionStart input);
               oldValue = el_value input;
               oldLength = int (length oldValue);
               formatted = formatNumberWithCommas (el_value input);
               input1 = set_value formatted input;
               newLength = int (length formatted);
               diff = newLength - oldLength;
               newPosition = max 0 (cursorPosition + diff);
               input2 = setSelectionRange (nat newPosition) (nat newPosition) input1;
               p = (user w)\<lparr>elements := (elements (user w))(target \<mapsto> input2)\<rparr>
           in debouncedCalculate P () (w\<lparr>user := p\<rparr>)))"

section \<open>Runs of the debounced trigger\<close>

text \<open>
  What can happen to the debounced function: it is called with some arguments, or time
  passes.  A run folds the events over the world.  A burst is a sequence of calls, each
  followed by a pause, and a last call.
\<close>

datatype 'a event = Fire 'a | Elapse nat

fun step :: "('a \<Rightarrow> 'w \<Rightarrow> 'w) \<Rightarrow> 'a event \<Rightarrow> 'w world \<Rightarrow> 'w world" where
  "step func (Fire args) w = debounce func DEBOUNCE_DELAY args w"
| "step func (Elapse d) w = elapse d w"

definition run :: "('a \<Rightarrow> 'w \<Rightarrow> 'w) \<Rightarrow> 'a event list \<Rightarrow> 'w world \<Rightarrow> 'w world" where
  "run func es w = fold (step func) es w"

fun burst :: "('a \<times> nat) list \<Rightarrow> 'a \<Rightarrow> 'a event list" where
  "burst [] a = [Fire a]"
| "burst ((b, g) # rest) a = Fire b # Elapse g # burst rest a"

text \<open>The world when the script is loaded: no timer, \<^verbatim>\<open>debounceTimer = null\<close>.\<close>

definition initial_world :: "'w \<Rightarrow> 'w world" where
  "initial_world u = \<lparr>user = u, pending = [], next_handle = 1, now = 0, debounceTimer = None\<rparr>"

text \<open>
  The state of the timers that the debounce keeps: at most one is pending, and
  \<^verbatim>\<open>debounceTimer\<close> holds its handle.
\<close>

definition single_flight :: "'w world \<Rightarrow> bool" where
  "single_flight w =
     (case pending w of [] \<Rightarrow> True
      | [t] \<Rightarrow> debounceTimer w = Some (fst t)
      | _ \<Rightarrow> False)"

text \<open>A function that records the arguments of each of its calls.\<close>

definition record_call :: "'a \<Rightarrow> 'a list \<Rightarrow> 'a list" where
  "record_call a calls = calls @ [a]"

section \<open>A sample page\<close>

text \<open>
  A page that has every element the script looks up: the two fields, the eight display
  targets and the canvas, and the two radio inputs, of which the first is checked.
\<close>

definition blank :: element where
  "blank = \<lparr>el_value = [], textContent = [], selectionStart = 0, selectionEnd = 0\<rparr>"

definition sample_page :: page where
  "sample_page =
     \<lparr>elements = map_of
        [(''monthlyTrail'', blank\<lparr>el_value := str ''1234'', selectionStart := 2, selectionEnd := 2\<rparr>),
         (''bookMultiple'', blank\<lparr>el_value := str ''3''\<rparr>),
         (''multipleDisplay'', blank), (''displayMonthlyTrail'', blank),
         (''annualTrail'', blank), (''displayMultiple'', blank), (''bookValue'', blank),
         (''accessLabel'', blank), (''accessAmount'', blank), (''accessPercent'', blank),
         (''comparisonChart'', blank)],
      radios =
        [\<lparr>radio_name = str ''loanPurpose'', radio_value = str ''acquisition'', checked = True\<rparr>,
         \<lparr>radio_name = str ''loanPurpose'', radio_value = str ''working-capital'', checked = False\<rparr>],
      comparisonChart = None\<rparr>"

text \<open>The page without the element of id \<open>i\<close>, and the page with no radio checked.\<close>

definition page_without :: "string \<Rightarrow> page \<Rightarrow> page" where
  "page_without i p = p\<lparr>elements := (elements p)(i := None)\<rparr>"

definition none_checked :: "page \<Rightarrow> page" where
  "none_checked p = p\<lparr>radios := map (\<lambda>r. r\<lparr>checked := False\<rparr>) (radios p)\<rparr>"

text \<open>The formatters of the sample: any functions do; these return fixed texts.\<close>

definition sample_platform :: platform where
  "sample_platform = \<lparr>intl_currency = (\<lambda>x. str ''$''), toFixed = (\<lambda>x n. str ''0.0'')\<rparr>"

text \<open>The ids of the fields that \<^verbatim>\<open>calculate\<close> reads and of the elements it writes.\<close>

definition looked_up :: "string list" where
  "looked_up = [''monthlyTrail'', ''bookMultiple'', ''multipleDisplay'', ''displayMonthlyTrail'',
     ''annualTrail'', ''displayMultiple'', ''bookValue'', ''accessLabel'', ''accessAmount'',
     ''accessPercent'']"

section \<open>Facts about numbers\<close>


lemma rne_of_int: "rne (of_int k) = k"
  by (simp add: rne_def)

lemma ilog2_of_nat:
  assumes "0 < n"
  shows "ilog2 (of_nat n) = bitlen (int n) - 1"
proof -
  have q: "quotient_of (of_nat n :: rat) = (int n, 1)"
    by (rule quotient_of_rat_of_nat)
  have b1: "bitlen 1 = 1"
    by (simp add: bitlen_alt_def)
  from assms have pos: "0 < int n" by simp
  have ge: "1 \<le> bitlen (int n)"
    using pos by (simp add: bitlen_alt_def)
  have "(2::int) ^ nat (bitlen (int n) - 1) \<le> int n"
    using bitlen_bounds [OF pos] by simp
  then have "(of_int ((2::int) ^ nat (bitlen (int n) - 1)) :: rat) \<le> of_int (int n)"
    by (simp only: of_int_le_iff)
  then have "(2::rat) powi (bitlen (int n) - 1) \<le> of_nat n"
    using ge by (simp add: power_int_def)
  then show ?thesis
    by (simp add: ilog2_def q b1)
qed

lemma round_double_small:
  assumes "0 < n" and "n < 2 ^ 53"
  shows "round_double (of_nat n) = of_nat n"
proof -
  define L where "L = bitlen (int n) - 1"
  have il: "ilog2 (of_nat n) = L"
    using assms(1) by (simp add: ilog2_of_nat L_def)
  have "bitlen (int n) \<le> 53"
    using assms(2) less_power_nat_iff_bitlen [of n 53] by simp
  moreover have "1 \<le> bitlen (int n)"
    using assms(1) by (simp add: bitlen_alt_def)
  ultimately have L: "0 \<le> L" "L \<le> 52"
    by (simp_all add: L_def)
  then have e: "max (L - 52) (- 1074) = - int (nat (52 - L))"
    by simp
  have "(of_nat n :: rat) / 2 powi (- int (nat (52 - L))) = of_int (int n * 2 ^ nat (52 - L))"
    using L by (simp add: power_int_minus power_int_def field_simps)
  then have r: "rne ((of_nat n :: rat) / 2 powi (- int (nat (52 - L)))) = int n * 2 ^ nat (52 - L)"
    by (simp only: rne_of_int)
  show ?thesis
    unfolding round_double_def il Let_def e r
    using L by (simp add: power_int_minus power_int_def field_simps)
qed

lemma num_of_rat_2_53: "num_of_rat 9007199254740992 = Fin 9007199254740992"
  by code_simp

lemma num_of_rat_nat_exact:
  assumes "n \<le> 2 ^ 53"
  shows "num_of_rat (of_nat n) = Fin (of_nat n)"
proof (cases "n = 0 \<or> n = 2 ^ 53")
  case True
  then show ?thesis
  proof
    assume "n = 0"
    then show ?thesis by (simp add: num_of_rat_def)
  next
    assume "n = 2 ^ 53"
    then have "(of_nat n :: rat) = 9007199254740992" by simp
    then show ?thesis by (simp only: num_of_rat_2_53)
  qed
next
  case False
  with assms have n: "0 < n" "n < 2 ^ 53" by simp_all
  have "bitlen (int n) \<le> 53"
    using n(2) less_power_nat_iff_bitlen [of n 53] by simp
  then have "ilog2 (of_nat n) < 1024"
    using n(1) by (simp add: ilog2_of_nat)
  then show ?thesis
    using n by (simp add: num_of_rat_def round_double_small)
qed


lemma rne_floor_le: "\<lfloor>x\<rfloor> \<le> rne x"
  by (simp add: rne_def Let_def)

lemma rne_le_floor_Suc: "rne x \<le> \<lfloor>x\<rfloor> + 1"
  by (simp add: rne_def Let_def)

lemma round_double_large:
  assumes "2 ^ 53 \<le> n"
  shows "\<exists>k. round_double (of_nat n) = of_nat k
           \<and> 2 ^ nat (bitlen (int n) - 1) \<le> k \<and> k \<le> 2 ^ nat (bitlen (int n))"
proof -
  define L where "L = bitlen (int n) - 1"
  from assms have pos: "0 < n"
    by (metis less_le_trans zero_less_numeral zero_less_power)
  have il: "ilog2 (of_nat n) = L"
    using pos by (simp add: ilog2_of_nat L_def)
  have "54 \<le> bitlen (int n)"
    using assms by (simp add: bitlen_ge_iff_power) 
  then have L: "53 \<le> L"
    by (simp add: L_def)
  define d where "d = nat (L - 52)"
  have e: "max (L - 52) (- 1074) = int d"
    using L by (simp add: d_def)
  define x where "x = (of_nat n :: rat) / 2 powi int d"
  define m where "m = rne x"
  have low: "(2::int) ^ nat L \<le> int n" and up: "int n < 2 ^ nat (L + 1)"
    using bitlen_bounds [of "int n"] pos by (simp_all add: L_def)
  have "nat L = 52 + d"
    using L by (simp add: d_def)
  then have split: "(2::int) ^ nat L = 2 ^ 52 * 2 ^ d"
    by (simp only: power_add)
  have "nat (L + 1) = 53 + d"
    using L by (simp add: d_def)
  then have split': "(2::int) ^ nat (L + 1) = 2 ^ 53 * 2 ^ d"
    by (simp only: power_add)
  have "(2::int) ^ 52 \<le> \<lfloor>x\<rfloor>"
  proof -
    have "(of_int ((2::int) ^ 52 * 2 ^ d) :: rat) \<le> of_int (int n)"
      using low split by (simp only: of_int_le_iff)
    then have "(of_int ((2::int) ^ 52) :: rat) \<le> x"
      by (simp add: x_def field_simps)
    then show ?thesis
      by (simp only: le_floor_iff)
  qed
  then have m: "2 ^ 52 \<le> m"
    unfolding m_def
    by (rule order_trans) (rule rne_floor_le)
  then have m0: "0 \<le> m" by simp
  have "\<lfloor>x\<rfloor> < (2::int) ^ 53"
  proof -
    have "(of_int (int n) :: rat) < of_int ((2::int) ^ 53 * 2 ^ d)"
      using up split' by (simp only: of_int_less_iff)
    then have "x < of_int ((2::int) ^ 53)"
      by (simp add: x_def field_simps)
    then show ?thesis
      by (simp only: floor_less_iff)
  qed
  then have m53: "m \<le> 2 ^ 53"
    using rne_le_floor_Suc [of x] unfolding m_def by linarith
  have "round_double (of_nat n) = of_int m * 2 ^ d"
    by (simp add: round_double_def il e m_def x_def)
  also have "\<dots> = of_nat (nat m * 2 ^ d)"
    using m0 by simp
  finally have r: "round_double (of_nat n) = of_nat (nat m * 2 ^ d)" .
  have "(2::int) ^ 52 * 2 ^ d \<le> m * 2 ^ d"
    using m by (simp add: mult_right_mono)
  then have "(2::int) ^ nat L \<le> int (nat m * 2 ^ d)"
    using m0 split by simp
  then have "(2::nat) ^ nat L \<le> nat m * 2 ^ d"
    by (metis of_nat_le_iff of_nat_numeral of_nat_power)
  then have b: "2 ^ nat (bitlen (int n) - 1) \<le> nat m * 2 ^ d"
    by (simp only: L_def)
  have "m * 2 ^ d \<le> (2::int) ^ 53 * 2 ^ d"
    using m53 by (simp add: mult_right_mono)
  then have "int (nat m * 2 ^ d) \<le> (2::int) ^ nat (L + 1)"
    using m0 split' by simp
  then have "nat m * 2 ^ d \<le> (2::nat) ^ nat (L + 1)"
    by (metis of_nat_le_iff of_nat_numeral of_nat_power)
  then have c: "nat m * 2 ^ d \<le> 2 ^ nat (bitlen (int n))"
    by (simp add: L_def)
  show ?thesis
    by (rule exI [of _ "nat m * 2 ^ d"]) (intro conjI r b c)
qed

lemma num_of_rat_finite:
  assumes "n < 2 ^ 1023"
  shows "num_of_rat (of_nat n) \<noteq> PInf"
proof (cases "n < 2 ^ 53")
  case True
  then show ?thesis
    by (simp add: num_of_rat_nat_exact)
next
  case False
  then have big: "(2::nat) ^ 53 \<le> n" by simp
  then have pos: "0 < n"
    by (metis less_le_trans zero_less_numeral zero_less_power)
  obtain k where k: "round_double (of_nat n) = of_nat k" "k \<le> 2 ^ nat (bitlen (int n))"
    using round_double_large [OF big] by blast
  have "bitlen (int n) \<le> 1023"
    using assms less_power_nat_iff_bitlen [of n 1023] by simp
  then have "(2::nat) ^ nat (bitlen (int n)) \<le> 2 ^ 1023"
    by (intro power_increasing) simp_all
  with k(2) have "k \<le> 2 ^ 1023" by simp
  also have "\<dots> < (2::nat) ^ 1024" by simp
  finally have "bitlen (int k) \<le> 1024"
    using less_power_nat_iff_bitlen [of k 1024] by simp
  then have "k \<noteq> 0 \<Longrightarrow> ilog2 (of_nat k) < 1024"
    by (simp add: ilog2_of_nat)
  then show ?thesis
    using pos by (auto simp add: num_of_rat_def k(1) Let_def split: if_splits)
qed

lemma num_of_rat_nat:
  "num_of_rat (of_nat n) = PInf \<or> (\<exists>k. num_of_rat (of_nat n) = Fin (of_nat k))"
proof (cases "n < 2 ^ 53")
  case True
  then have "num_of_rat (of_nat n) = Fin (of_nat n)"
    by (simp add: num_of_rat_nat_exact)
  then show ?thesis by blast
next
  case False
  then obtain k where "round_double (of_nat n) = of_nat k"
    using round_double_large [of n] by auto
  moreover from False have "0 < n"
    by (metis not_less less_le_trans zero_less_numeral zero_less_power)
  ultimately show ?thesis
    by (auto simp add: num_of_rat_def Let_def)
qed

lemma num_of_rat_overflow:
  assumes "2 ^ 1024 \<le> n"
  shows "num_of_rat (of_nat n) = PInf"
proof -
  have big: "(2::nat) ^ 53 \<le> n"
    using assms by (rule order_trans [rotated]) simp
  then have pos: "0 < n"
    by (metis less_le_trans zero_less_numeral zero_less_power)
  obtain k where k: "round_double (of_nat n) = of_nat k" "2 ^ nat (bitlen (int n) - 1) \<le> k"
    using round_double_large [OF big] by blast
  have "1025 \<le> bitlen (int n)"
    using assms by (simp add: bitlen_ge_iff_power)
  then have "(2::nat) ^ 1024 \<le> 2 ^ nat (bitlen (int n) - 1)"
    by (intro power_increasing) simp_all
  with k(2) have k1024: "2 ^ 1024 \<le> k" by simp
  then have kpos: "0 < k"
    by (metis less_le_trans zero_less_numeral zero_less_power)
  have "1025 \<le> bitlen (int k)"
    using k1024 by (simp add: bitlen_ge_iff_power)
  then have "1024 \<le> ilog2 (of_nat k)"
    using kpos by (simp add: ilog2_of_nat)
  then show ?thesis
    using pos kpos by (simp add: num_of_rat_def k(1))
qed

section \<open>Facts about digits and grouping\<close>

lemma digit_value_snoc: "digit_value (ds @ [c]) = 10 * digit_value ds + (c - 48)"
  by (simp add: digit_value_def)

lemma digit_value_digits_of: "digit_value (digits_of n) = n"
proof (induction n rule: digits_of.induct)
  case (1 n)
  show ?case
  proof (cases "n < 10")
    case True
    then show ?thesis
      by (simp add: digits_of.simps [of n] digit_value_def)
  next
    case False
    with 1 have "digit_value (digits_of (n div 10)) = n div 10" by simp
    with False show ?thesis
      by (simp add: digits_of.simps [of n] digit_value_snoc)
  qed
qed

lemma digits_of_isDigit: "c \<in> set (digits_of n) \<Longrightarrow> isDigit c"
proof (induction n rule: digits_of.induct)
  case (1 n)
  show ?case
  proof (cases "n < 10")
    case True
    with 1(2) show ?thesis
      by (simp add: digits_of.simps [of n] isDigit_def)
  next
    case False
    with 1 show ?thesis
      by (auto simp add: digits_of.simps [of n] isDigit_def)
  qed
qed

lemma digits_of_nonempty: "digits_of n \<noteq> []"
  by (simp add: digits_of.simps [of n])

lemma filter_group3: "filter isDigit (group3 ds) = filter isDigit ds"
  by (induction ds rule: group3.induct) (simp_all add: isDigit_def)

lemma filter_grouped: "filter isDigit (grouped n) = digits_of n"
proof -
  have "filter isDigit (digits_of n) = digits_of n"
    by (rule filter_True) (simp add: digits_of_isDigit)
  then show ?thesis
    by (simp add: grouped_def filter_group3 flip: rev_filter)
qed

lemma toLocaleString_nat: "toLocaleString (Fin (of_nat n)) = grouped n"
proof -
  have "\<lfloor>\<bar>of_nat n :: rat\<bar> * 1000 + 1 / 2\<rfloor> = int (n * 1000)"
    by (rule floor_unique) simp_all
  then have "nat \<lfloor>\<bar>of_nat n :: rat\<bar> * 1000 + 1 / 2\<rfloor> = n * 1000"
    by (simp only: nat_int)
  then show ?thesis
    unfolding toLocaleString_def number.case Let_def
    by (simp add: fraction_digits_def)
qed

lemma parseInt_digits:
  assumes "z \<noteq> []" and "\<forall>c \<in> set z. isDigit c"
  shows "parseInt z = num_of_rat (of_nat (digit_value z))"
proof -
  from assms obtain c r where z: "z = c # r" and c: "isDigit c"
    by (cases z) auto
  from c have nw: "\<not> isWhiteSpace c" and ns: "c \<noteq> 45" "c \<noteq> 43"
    by (auto simp add: isDigit_def isWhiteSpace_def)
  have "takeWhile isDigit z = z"
    using assms(2) by (simp add: takeWhile_eq_all_conv)
  then show ?thesis
    using nw ns assms(1) by (simp add: parseInt_def read_sign_def z)
qed

lemma parseFormattedNumber_eq:
  "parseFormattedNumber s =
     (if filter isDigit s = [] then Fin 0
      else js_or (num_of_rat (of_nat (digit_value (filter isDigit s)))) (Fin 0))"
proof (cases "filter isDigit s = []")
  case True
  then show ?thesis
    by (simp add: parseFormattedNumber_def parseInt_def read_sign_def js_or_def falsy_def)
next
  case False
  then show ?thesis
    by (simp add: parseFormattedNumber_def parseInt_digits)
qed

section \<open>Facts about parsing\<close>

lemma foldl_zeros:
  "foldl (\<lambda>n c. 10 * n + (c - 48)) (a::nat) (replicate k 48) = a * 10 ^ k"
  by (induction k arbitrary: a) simp_all

lemma digit_value_one_zeros: "digit_value (str ''1'' @ replicate k 48) = 10 ^ k"
  by (simp add: digit_value_def str_def foldl_zeros)

lemma filter_one_zeros: "filter isDigit (str ''1'' @ replicate k 48) = str ''1'' @ replicate k 48"
  by (simp add: str_def isDigit_def)

lemma parse_2_53_1: "num_of_rat 9007199254740993 = Fin 9007199254740992"
  by code_simp

lemma parseFormattedNumber_exact:
  assumes "digit_value (filter isDigit s) \<le> 2 ^ 53"
  shows "parseFormattedNumber s = Fin (of_nat (digit_value (filter isDigit s)))"
proof (cases "filter isDigit s = []")
  case True
  then show ?thesis
    by (simp add: parseFormattedNumber_eq digit_value_def)
next
  case False
  then show ?thesis
    using assms by (simp add: parseFormattedNumber_eq num_of_rat_nat_exact js_or_def falsy_def)
qed

lemma parseFormattedNumber_range:
  "parseFormattedNumber s = PInf \<or> (\<exists>k. parseFormattedNumber s = Fin (of_nat k))"
proof (cases "filter isDigit s = []")
  case True
  then have "parseFormattedNumber s = Fin (of_nat 0)"
    by (simp add: parseFormattedNumber_eq)
  then show ?thesis by blast
next
  case False
  let ?n = "digit_value (filter isDigit s)"
  from num_of_rat_nat [of ?n] show ?thesis
  proof
    assume "num_of_rat (of_nat ?n) = PInf"
    then show ?thesis
      using False by (simp add: parseFormattedNumber_eq js_or_def falsy_def)
  next
    assume "\<exists>k. num_of_rat (of_nat ?n) = Fin (of_nat k)"
    then obtain k where k: "num_of_rat (of_nat ?n) = Fin (of_nat k)" ..
    have "parseFormattedNumber s = Fin (of_nat k)"
      using False k by (simp add: parseFormattedNumber_eq js_or_def falsy_def)
    then show ?thesis by blast
  qed
qed

lemma grouped_2_53: "grouped 9007199254740992 = str ''9,007,199,254,740,992''"
  by (simp add: grouped_def digits_of.simps str_def)

lemma grouped_2_53_1: "grouped 9007199254740993 = str ''9,007,199,254,740,993''"
  by (simp add: grouped_def digits_of.simps str_def)

lemma digits_2_53_1:
  "filter isDigit (str ''9007199254740993'') = str ''9007199254740993''"
  "digit_value (str ''9007199254740993'') = 9007199254740993"
  by (simp_all add: str_def isDigit_def digit_value_def)

lemma formatNumberWithCommas_eq:
  "formatNumberWithCommas s =
     (if filter isDigit s = [] then []
      else toLocaleString (num_of_rat (of_nat (digit_value (filter isDigit s)))))"
  by (simp add: formatNumberWithCommas_def parseInt_digits)

lemma formatNumberWithCommas_exact:
  assumes "filter isDigit s \<noteq> []" and "digit_value (filter isDigit s) \<le> 2 ^ 53"
  shows "formatNumberWithCommas s = grouped (digit_value (filter isDigit s))"
  using assms by (simp add: formatNumberWithCommas_eq num_of_rat_nat_exact toLocaleString_nat)

lemma format_2_53_1:
  "formatNumberWithCommas (str ''9007199254740993'') = str ''9,007,199,254,740,992''"
proof -
  have "toLocaleString (Fin (of_nat 9007199254740992)) = grouped 9007199254740992"
    by (rule toLocaleString_nat)
  then have "toLocaleString (Fin 9007199254740992) = str ''9,007,199,254,740,992''"
    by (simp add: grouped_2_53)
  then show ?thesis
    by (simp add: formatNumberWithCommas_eq digits_2_53_1 parse_2_53_1) (simp add: str_def)
qed

lemma parseFloat_minus_2: "parseFloat (str ''-2'') = Fin (- 2)"
proof -
  have "num_of_rat (- 2) = Fin (- 2)" by code_simp
  then show ?thesis
    by (simp add: parseFloat_def str_def read_sign_def isWhiteSpace_def isDigit_def
        digit_value_def exponent_part_def)
qed

lemma parseFloat_samples:
  "parseFloat (str ''abc'') = NaN"
  "parseFloat (str ''0'') = Fin 0"
  "parseFloat (str ''2.5'') = Fin (5 / 2)"
proof -
  have a: "num_of_rat (5 / 2) = Fin (5 / 2)" by code_simp
  show "parseFloat (str ''abc'') = NaN"
    by (simp add: parseFloat_def str_def read_sign_def isWhiteSpace_def isDigit_def)
  show "parseFloat (str ''0'') = Fin 0"
    by (simp add: parseFloat_def str_def read_sign_def isWhiteSpace_def isDigit_def
        digit_value_def exponent_part_def num_of_rat_def)
  have "(2 + 5 / 10 :: rat) = 5 / 2" by simp
  then show "parseFloat (str ''2.5'') = Fin (5 / 2)"
    by (simp add: parseFloat_def str_def read_sign_def isWhiteSpace_def isDigit_def
        digit_value_def exponent_part_def a)
qed

section \<open>Facts about the figures\<close>

lemma lit_0_7: "num_of_rat (7 / 10) = Fin (6305039478318694 / 9007199254740992)"
  by code_simp

lemma derive_10000_acq:
  "derive (Fin 10000) (Fin 3) (str ''acquisition'') =
     \<lparr>annualTrail = Fin 120000, bookValue = Fin 360000, workingCapital = Fin 180000,
      acquisitionFinance = Fin (252000 - 1 / 2 ^ 35), isAcquisition = True,
      accessAmount = Fin (252000 - 1 / 2 ^ 35), accessPercent = str ''70%'',
      accessLabel = str ''Acquisition Finance''\<rparr>"
proof -
  have a: "fmul (Fin 10000) (Fin 12) = Fin 120000" by code_simp
  have b: "fmul (Fin 120000) (Fin 3) = Fin 360000" by code_simp
  have c: "fmul (Fin 360000) (Fin (1 / 2)) = Fin 180000" by code_simp
  have d: "fmul (Fin 360000) (num_of_rat (7 / 10)) = Fin (8658654068735999 / 34359738368)"
    by code_simp
  have e: "(252000 - 1 / 2 ^ 35 :: rat) = 8658654068735999 / 34359738368" by simp
  show ?thesis
    unfolding derive_def Let_def a b c d e by simp
qed

lemma derive_10000_wc:
  assumes "p \<noteq> str ''acquisition''"
  shows "derive (Fin 10000) (Fin 3) p =
     \<lparr>annualTrail = Fin 120000, bookValue = Fin 360000, workingCapital = Fin 180000,
      acquisitionFinance = Fin (252000 - 1 / 2 ^ 35), isAcquisition = False,
      accessAmount = Fin 180000, accessPercent = str ''50%'',
      accessLabel = str ''Working Capital''\<rparr>"
proof -
  have a: "fmul (Fin 10000) (Fin 12) = Fin 120000" by code_simp
  have b: "fmul (Fin 120000) (Fin 3) = Fin 360000" by code_simp
  have c: "fmul (Fin 360000) (Fin (1 / 2)) = Fin 180000" by code_simp
  have d: "fmul (Fin 360000) (num_of_rat (7 / 10)) = Fin (8658654068735999 / 34359738368)"
    by code_simp
  have e: "(252000 - 1 / 2 ^ 35 :: rat) = 8658654068735999 / 34359738368" by simp
  show ?thesis
    unfolding derive_def Let_def a b c d e using assms by simp
qed

lemma wc_not_acquisition: "str ''working-capital'' \<noteq> str ''acquisition''"
  by (simp add: str_def)

section \<open>Facts about the page and the handler\<close>

lemma user_debounce: "user (debounce func delay a w) = user w"
  by (simp add: debounce_def setTimeout_def clearTimeout_def split: option.splits)

lemma format_1234: "formatNumberWithCommas (str ''1234'') = str ''1,234''"
proof -
  have a: "filter isDigit (str ''1234'') = str ''1234''"
    and b: "digit_value (str ''1234'') = 1234"
    and d: "str ''1234'' \<noteq> []"
    by (simp_all add: str_def isDigit_def digit_value_def)
  have c: "grouped 1234 = str ''1,234''"
    by (simp add: grouped_def digits_of.simps str_def)
  show ?thesis
    using formatNumberWithCommas_exact [of "str ''1234''"] by (simp add: a b c d)
qed

lemma sample_trail:
  "elements sample_page ''monthlyTrail''
     = Some (blank\<lparr>el_value := str ''1234'', selectionStart := 2, selectionEnd := 2\<rparr>)"
  by (simp add: sample_page_def)

lemma updateComparisonChart_returns:
  "\<exists>p'. updateComparisonChart bv amt acq p = Returned p' \<and> elements p' = elements p"
  by (simp add: updateComparisonChart_def Let_def split: option.splits)

lemma calculate_complete:
  assumes "elements p ''monthlyTrail'' = Some e1" and "elements p ''bookMultiple'' = Some e2"
    and "\<forall>i \<in> set looked_up. elements p i \<noteq> None"
  shows "\<exists>p'. calculate P p = Returned p'
     \<and> map_option textContent (elements p' ''accessLabel'')
         = Some (accessLabel (derive (parseFormattedNumber (el_value e1))
              (read_multiple (el_value e2)) (getSelectedPurpose p)))
     \<and> map_option textContent (elements p' ''accessPercent'')
         = Some (accessPercent (derive (parseFormattedNumber (el_value e1))
              (read_multiple (el_value e2)) (getSelectedPurpose p))
              @ str '' of book value'')"
proof -
  from assms(3) obtain e3 e4 e5 e6 e7 e8 e9 e10 where e:
    "elements p ''multipleDisplay'' = Some e3" "elements p ''displayMonthlyTrail'' = Some e4"
    "elements p ''annualTrail'' = Some e5" "elements p ''displayMultiple'' = Some e6"
    "elements p ''bookValue'' = Some e7" "elements p ''accessLabel'' = Some e8"
    "elements p ''accessAmount'' = Some e9" "elements p ''accessPercent'' = Some e10"
    by (auto simp add: looked_up_def)
  show ?thesis
    unfolding calculate_def Let_def
    by (simp add: assms(1,2) e set_textContent_def updateComparisonChart_def Let_def
        split: option.splits)
qed

lemma str_append: "str a @ str b = str (a @ b)"
  by (simp add: str_def)

lemma calculate_without_canvas:
  "\<exists>p'. calculate P (page_without ''comparisonChart'' sample_page) = Returned p'
      \<and> comparisonChart p' = None"
  unfolding calculate_def Let_def
  by (simp add: page_without_def sample_page_def set_textContent_def blank_def
      updateComparisonChart_def)

section \<open>Facts about the timers\<close>

lemma debounce_single_flight:
  assumes "single_flight w"
  shows "debounce func delay a w =
    w\<lparr>pending := [(next_handle w, now w + delay, func a)],
      next_handle := Suc (next_handle w),
      debounceTimer := Some (next_handle w)\<rparr>"
proof (cases "pending w")
  case Nil
  then show ?thesis
    by (cases "debounceTimer w") (simp_all add: debounce_def clearTimeout_def setTimeout_def)
next
  case (Cons t ts)
  with assms have "ts = []" and "debounceTimer w = Some (fst t)"
    by (simp_all add: single_flight_def split: list.splits)
  with Cons show ?thesis
    by (simp add: debounce_def clearTimeout_def setTimeout_def)
qed

lemma single_flight_debounce:
  assumes "single_flight w"
  shows "single_flight (debounce func delay a w)"
  by (simp add: debounce_single_flight [OF assms] single_flight_def)

lemma single_flight_elapse:
  assumes "single_flight w"
  shows "single_flight (elapse d w)"
proof (cases "pending w")
  case Nil
  then show ?thesis
    by (simp add: elapse_def single_flight_def)
next
  case (Cons t ts)
  with assms have "ts = []" and "debounceTimer w = Some (fst t)"
    by (simp_all add: single_flight_def split: list.splits)
  with Cons show ?thesis
    by (simp add: elapse_def single_flight_def Let_def)
qed

lemma single_flight_run:
  assumes "single_flight w"
  shows "single_flight (run func es w)"
  using assms
proof (induction es arbitrary: w)
  case Nil
  then show ?case by (simp add: run_def)
next
  case (Cons e es)
  have "single_flight (step func e w)"
    using Cons.prems by (cases e) (simp_all add: single_flight_debounce single_flight_elapse)
  then have "single_flight (run func es (step func e w))"
    by (rule Cons.IH)
  then show ?case
    by (simp add: run_def)
qed

lemma single_flight_length:
  assumes "single_flight w"
  shows "length (pending w) \<le> 1"
  using assms by (simp add: single_flight_def split: list.splits)

lemma single_flight_initial: "single_flight (initial_world u)"
  by (simp add: single_flight_def initial_world_def)

lemma elapse_early:
  assumes "pending w = [(h, now w + delay, cb)]" and "g < delay"
  shows "elapse g w = w\<lparr>now := now w + g\<rparr>"
  using assms by (simp add: elapse_def Let_def)

lemma elapse_late:
  assumes "pending w = [(h, now w + delay, cb)]" and "delay \<le> d"
  shows "elapse d w = w\<lparr>user := cb (user w), pending := [], now := now w + d\<rparr>"
  using assms by (simp add: elapse_def Let_def)

lemma run_append: "run func (es @ fs) w = run func fs (run func es w)"
  by (simp add: run_def)

lemma run_burst:
  assumes "single_flight w" and "\<forall>x \<in> set pre. snd x < DEBOUNCE_DELAY"
  shows "user (run func (burst pre a) w) = user w
     \<and> (\<exists>h. pending (run func (burst pre a) w)
            = [(h, now (run func (burst pre a) w) + DEBOUNCE_DELAY, func a)])"
  using assms
proof (induction pre arbitrary: w)
  case Nil
  then show ?case
    by (simp add: run_def debounce_single_flight)
next
  case (Cons x pre)
  obtain b g where x: "x = (b, g)" by (cases x)
  with Cons.prems have g: "g < DEBOUNCE_DELAY" by simp
  let ?w1 = "debounce func DEBOUNCE_DELAY b w"
  let ?w2 = "elapse g ?w1"
  have w1: "?w1 = w\<lparr>pending := [(next_handle w, now w + DEBOUNCE_DELAY, func b)],
      next_handle := Suc (next_handle w), debounceTimer := Some (next_handle w)\<rparr>"
    by (rule debounce_single_flight) (rule Cons.prems)
  then have p1: "pending ?w1 = [(next_handle w, now ?w1 + DEBOUNCE_DELAY, func b)]"
    by simp
  have w2: "?w2 = ?w1\<lparr>now := now ?w1 + g\<rparr>"
    using p1 g by (rule elapse_early)
  have u2: "user ?w2 = user w"
    by (subst w2, subst w1) simp
  have sf: "single_flight ?w2"
    by (intro single_flight_elapse single_flight_debounce Cons.prems)
  have r: "run func (burst (x # pre) a) w = run func (burst pre a) ?w2"
    by (simp add: x run_def)
  from Cons.IH [OF sf] Cons.prems(2) show ?case
    unfolding r u2 by simp
qed

section \<open>The figures (C1, C8)\<close>



text \<open>
  C8, as the specification states it: with a monthly trail of 10000 and a multiple of 3.0 the
  access amount for an acquisition is 252000.  It is not: the double 0.7 lies below 7/10, and
  the product \<open>360000 * 0.7\<close> rounds to the double just below 252000.
\<close>

theorem scenario_acquisition_not_252000:
  "accessAmount (derive (Fin 10000) (Fin 3) (str ''acquisition'')) \<noteq> Fin 252000"
  by (simp add: derive_10000_acq)

text \<open>
  C8, amended.  With a monthly trail of 10000 and a multiple of 3.0, \<open>annualTrail = 120000\<close>
  and \<open>bookValue = 360000\<close>; for an acquisition \<open>accessAmount\<close> is \<open>252000 - 2 powi (- 35)\<close>
  (printed 251999.99999999997) with percent "70%"; for any other purpose
  \<open>accessAmount = 180000\<close> with percent "50%".
\<close>

theorem scenario_10000:
  "annualTrail (derive (Fin 10000) (Fin 3) p) = Fin 120000
   \<and> bookValue (derive (Fin 10000) (Fin 3) p) = Fin 360000
   \<and> accessAmount (derive (Fin 10000) (Fin 3) (str ''acquisition'')) = Fin (252000 - 1 / 2 ^ 35)
   \<and> accessPercent (derive (Fin 10000) (Fin 3) (str ''acquisition'')) = str ''70%''
   \<and> (p \<noteq> str ''acquisition'' \<longrightarrow>
        accessAmount (derive (Fin 10000) (Fin 3) p) = Fin 180000
        \<and> accessPercent (derive (Fin 10000) (Fin 3) p) = str ''50%'')"
proof (cases "p = str ''acquisition''")
  case True
  then show ?thesis by (simp add: derive_10000_acq)
next
  case False
  then show ?thesis by (simp add: derive_10000_wc derive_10000_acq)
qed

theorem scenario_10000_witness:
  "str ''working-capital'' \<noteq> str ''acquisition''
   \<and> accessAmount (derive (Fin 10000) (Fin 3) (str ''working-capital'')) = Fin 180000
   \<and> accessPercent (derive (Fin 10000) (Fin 3) (str ''working-capital'')) = str ''50%''"
  using scenario_10000 [of "str ''working-capital''"] wc_not_acquisition
  by simp

section \<open>Parsing and formatting the trail (C5, C6, C10)\<close>

text \<open>
  C5, as the specification states it: for every input string \<^verbatim>\<open>parseFormattedNumber\<close>
  (the specification's parseInteger) yields a non-negative integer.  The result is a double:
  for a 1 followed by 309 zeros it is Infinity.
\<close>

theorem parseFormattedNumber_overflow:
  "parseFormattedNumber (str ''1'' @ replicate 309 48) = PInf"
proof -
  have "(2::nat) ^ 1024 \<le> 10 ^ 309" by simp
  then have "num_of_rat (of_nat (10 ^ 309)) = PInf"
    by (rule num_of_rat_overflow)
  then show ?thesis
    by (simp only: parseFormattedNumber_eq filter_one_zeros digit_value_one_zeros)
      (simp add: str_def js_or_def falsy_def)
qed

text \<open>
  C5, amended.  For every input string \<^verbatim>\<open>parseFormattedNumber\<close> strips the characters that
  are not digits and parses the rest, rounding to a double: the result is a non-negative
  integer or Infinity, and it is not Infinity when the digits denote less than \<open>2 ^ 1023\<close>;
  it is exactly the integer the digits denote when that is at most \<open>2 ^ 53\<close>; it is 0 when
  the input has no digit.  In particular \<^verbatim>\<open>""\<close> gives 0 and \<^verbatim>\<open>"1,234abc"\<close> gives 1234.
\<close>

theorem parseFormattedNumber_spec:
  "(parseFormattedNumber s = PInf \<or> (\<exists>k. parseFormattedNumber s = Fin (of_nat k)))
   \<and> (digit_value (filter isDigit s) < 2 ^ 1023 \<longrightarrow> parseFormattedNumber s \<noteq> PInf)
   \<and> (digit_value (filter isDigit s) \<le> 2 ^ 53 \<longrightarrow>
        parseFormattedNumber s = Fin (of_nat (digit_value (filter isDigit s))))
   \<and> (filter isDigit s = [] \<longrightarrow> parseFormattedNumber s = Fin 0)
   \<and> parseFormattedNumber (str '''') = Fin 0
   \<and> parseFormattedNumber (str ''1,234abc'') = Fin 1234"
proof (intro conjI impI)
  show "parseFormattedNumber s = PInf \<or> (\<exists>k. parseFormattedNumber s = Fin (of_nat k))"
    by (rule parseFormattedNumber_range)
  show "parseFormattedNumber s \<noteq> PInf" if "digit_value (filter isDigit s) < 2 ^ 1023"
    using that num_of_rat_finite [of "digit_value (filter isDigit s)"]
    by (simp add: parseFormattedNumber_eq js_or_def falsy_def)
  show "parseFormattedNumber s = Fin (of_nat (digit_value (filter isDigit s)))"
    if "digit_value (filter isDigit s) \<le> 2 ^ 53"
    using that by (rule parseFormattedNumber_exact)
  show "parseFormattedNumber s = Fin 0" if "filter isDigit s = []"
    using that by (simp add: parseFormattedNumber_eq)
  show "parseFormattedNumber (str '''') = Fin 0"
    by (simp add: parseFormattedNumber_eq str_def)
  have "digit_value (filter isDigit (str ''1,234abc'')) = 1234"
    by (simp add: str_def isDigit_def digit_value_def)
  then show "parseFormattedNumber (str ''1,234abc'') = Fin 1234"
    using parseFormattedNumber_exact [of "str ''1,234abc''"] by simp
qed

theorem parseFormattedNumber_spec_witness:
  "digit_value (filter isDigit (str ''$45,000 pm'')) \<le> 2 ^ 53
   \<and> parseFormattedNumber (str ''$45,000 pm'') = Fin 45000
   \<and> filter isDigit (str ''n/a'') = []
   \<and> parseFormattedNumber (str ''n/a'') = Fin 0"
proof -
  have a: "digit_value (filter isDigit (str ''$45,000 pm'')) = 45000"
    by (simp add: str_def isDigit_def digit_value_def)
  have b: "filter isDigit (str ''n/a'') = []"
    by (simp add: str_def isDigit_def)
  show ?thesis
    using parseFormattedNumber_spec [of "str ''$45,000 pm''"]
      parseFormattedNumber_spec [of "str ''n/a''"] a b
    by simp
qed

text \<open>
  C6, as the specification states it: for every input string \<^verbatim>\<open>formatNumberWithCommas\<close>
  renders the integer that the digits of the input denote.  The digits go through
  \<^verbatim>\<open>parseInt\<close>, hence through a double: \<open>2 ^ 53 + 1\<close> is rendered as \<open>2 ^ 53\<close>.
\<close>

theorem format_rounds_above_2_53:
  "formatNumberWithCommas (str ''9007199254740993'') = str ''9,007,199,254,740,992''
   \<and> grouped (digit_value (filter isDigit (str ''9007199254740993'')))
       = str ''9,007,199,254,740,993''"
  by (simp add: format_2_53_1 digits_2_53_1 grouped_2_53_1)

text \<open>
  C6, amended.  \<^verbatim>\<open>formatNumberWithCommas\<close> strips every character that is not a decimal
  digit; with no digit left it returns the empty string; when the digits denote an integer of
  at most \<open>2 ^ 53\<close> it returns that integer grouped by three with commas (\<open>grouped n\<close> is
  the decimal digits of \<open>n\<close> with commas added, and those digits denote \<open>n\<close>).  In
  particular \<^verbatim>\<open>"1234567"\<close> gives \<^verbatim>\<open>"1,234,567"\<close>.
\<close>

theorem formatNumberWithCommas_spec:
  "(filter isDigit s = [] \<longrightarrow> formatNumberWithCommas s = [])
   \<and> (filter isDigit s \<noteq> [] \<and> digit_value (filter isDigit s) \<le> 2 ^ 53 \<longrightarrow>
        formatNumberWithCommas s = grouped (digit_value (filter isDigit s)))
   \<and> filter isDigit (grouped n) = digits_of n
   \<and> digit_value (digits_of n) = n
   \<and> formatNumberWithCommas (str ''1234567'') = str ''1,234,567''"
proof (intro conjI impI)
  show "formatNumberWithCommas s = []" if "filter isDigit s = []"
    using that by (simp add: formatNumberWithCommas_eq)
  show "formatNumberWithCommas s = grouped (digit_value (filter isDigit s))"
    if "filter isDigit s \<noteq> [] \<and> digit_value (filter isDigit s) \<le> 2 ^ 53"
    using that by (simp add: formatNumberWithCommas_exact)
  show "filter isDigit (grouped n) = digits_of n"
    by (rule filter_grouped)
  show "digit_value (digits_of n) = n"
    by (rule digit_value_digits_of)
  have a: "filter isDigit (str ''1234567'') = str ''1234567''"
    and b: "digit_value (str ''1234567'') = 1234567"
    by (simp_all add: str_def isDigit_def digit_value_def)
  have c: "grouped 1234567 = str ''1,234,567''"
    by (simp add: grouped_def digits_of.simps str_def)
  have "formatNumberWithCommas (str ''1234567'') = grouped 1234567"
    using formatNumberWithCommas_exact [of "str ''1234567''"] by (simp add: a b) (simp add: str_def)
  then show "formatNumberWithCommas (str ''1234567'') = str ''1,234,567''"
    by (simp only: c)
qed

theorem formatNumberWithCommas_spec_witness:
  "filter isDigit (str ''$ 45000'') \<noteq> []
   \<and> digit_value (filter isDigit (str ''$ 45000'')) \<le> 2 ^ 53
   \<and> formatNumberWithCommas (str ''$ 45000'') = str ''45,000''
   \<and> filter isDigit (str ''abc'') = []
   \<and> formatNumberWithCommas (str ''abc'') = []"
proof -
  have a: "filter isDigit (str ''$ 45000'') = str ''45000''"
    and b: "digit_value (str ''45000'') = 45000"
    and c: "filter isDigit (str ''abc'') = []"
    and d: "str ''45000'' \<noteq> []"
    by (simp_all add: str_def isDigit_def digit_value_def)
  have e: "grouped 45000 = str ''45,000''"
    by (simp add: grouped_def digits_of.simps str_def)
  show ?thesis
    using formatNumberWithCommas_spec [of "str ''$ 45000''"]
      formatNumberWithCommas_spec [of "str ''abc''"]
    by (simp add: a b c d e)
qed

text \<open>
  C10, as stated: for every non-empty string of digits \<open>d\<close>, parsing the grouped rendering
  of \<open>d\<close> gives the integer \<open>d\<close> denotes.  For \<open>2 ^ 53 + 1\<close> it gives \<open>2 ^ 53\<close>.
\<close>

theorem roundtrip_fails_above_2_53:
  "parseFormattedNumber (formatNumberWithCommas (str ''9007199254740993'')) = Fin 9007199254740992
   \<and> digit_value (str ''9007199254740993'') = 9007199254740993"
proof -
  have "filter isDigit (str ''9,007,199,254,740,992'') = str ''9007199254740992''"
    by (simp add: str_def isDigit_def)
  moreover have "digit_value (str ''9007199254740992'') = 9007199254740992"
    by (simp add: str_def digit_value_def)
  ultimately have "parseFormattedNumber (str ''9,007,199,254,740,992'') = Fin 9007199254740992"
    using parseFormattedNumber_exact [of "str ''9,007,199,254,740,992''"] by simp
  then show ?thesis
    by (simp add: format_2_53_1 digits_2_53_1)
qed

text \<open>
  C10, amended.  For every non-empty string of digits \<open>d\<close> that denotes an integer of at
  most \<open>2 ^ 53\<close>, \<^verbatim>\<open>parseFormattedNumber(formatNumberWithCommas(d))\<close> is that integer.
\<close>

theorem format_parse_roundtrip:
  assumes "d \<noteq> []" and "\<forall>c \<in> set d. isDigit c" and "digit_value d \<le> 2 ^ 53"
  shows "parseFormattedNumber (formatNumberWithCommas d) = Fin (of_nat (digit_value d))"
proof -
  have f: "filter isDigit d = d"
    using assms(2) by (simp add: filter_True)
  have "formatNumberWithCommas d = grouped (digit_value d)"
    using formatNumberWithCommas_exact [of d] assms f by simp
  moreover have "digit_value (filter isDigit (grouped (digit_value d))) = digit_value d"
    by (simp add: filter_grouped digit_value_digits_of)
  ultimately show ?thesis
    using parseFormattedNumber_exact [of "grouped (digit_value d)"] assms(3) by simp
qed

theorem format_parse_roundtrip_witness:
  "str ''1234567'' \<noteq> [] \<and> filter isDigit (str ''1234567'') = str ''1234567''
   \<and> digit_value (str ''1234567'') \<le> 2 ^ 53
   \<and> parseFormattedNumber (formatNumberWithCommas (str ''1234567'')) = Fin 1234567"
proof -
  have a: "str ''1234567'' \<noteq> []" and b: "\<forall>c \<in> set (str ''1234567''). isDigit c"
    and c: "digit_value (str ''1234567'') = 1234567"
    and e: "filter isDigit (str ''1234567'') = str ''1234567''"
    by (simp_all add: str_def isDigit_def digit_value_def)
  then have d: "digit_value (str ''1234567'') \<le> 2 ^ 53" by simp
  show ?thesis
    using format_parse_roundtrip [OF a b d] a c e by simp
qed

section \<open>The multiple (C2)\<close>

text \<open>
  C2, as the specification states it: for every text of the multiple field the multiple that
  the computation uses is strictly positive.  For the text \<^verbatim>\<open>-2\<close> it is \<open>- 2\<close>: a
  negative number is truthy and is used as it is.
\<close>

theorem read_multiple_negative:
  "read_multiple (str ''-2'') = Fin (- 2) \<and> \<not> positive (read_multiple (str ''-2''))"
  by (simp add: read_multiple_def parseFloat_minus_2 js_or_def falsy_def positive_def)

text \<open>
  C2, amended.  For every text of the multiple field: if the text fails to parse (NaN) or
  parses to zero, the multiple used is exactly 3; otherwise the parsed value is used as it
  is.  The multiple used is therefore never NaN and never zero, and it is strictly positive
  whenever the parsed value is.
\<close>

theorem read_multiple_spec:
  "(parseFloat text = NaN \<or> parseFloat text = Fin 0 \<longrightarrow> read_multiple text = Fin 3)
   \<and> (parseFloat text \<noteq> NaN \<and> parseFloat text \<noteq> Fin 0 \<longrightarrow> read_multiple text = parseFloat text)
   \<and> read_multiple text \<noteq> NaN \<and> read_multiple text \<noteq> Fin 0
   \<and> (positive (parseFloat text) \<longrightarrow> positive (read_multiple text))"
  by (auto simp add: read_multiple_def js_or_def falsy_def positive_def)

theorem read_multiple_spec_witness:
  "read_multiple (str ''abc'') = Fin 3 \<and> read_multiple (str ''0'') = Fin 3
   \<and> read_multiple (str ''2.5'') = Fin (5 / 2) \<and> positive (read_multiple (str ''2.5''))"
  using read_multiple_spec [of "str ''abc''"] read_multiple_spec [of "str ''0''"]
    read_multiple_spec [of "str ''2.5''"]
  by (simp add: parseFloat_samples positive_def)

section \<open>The caret of the trail field (C7)\<close>

text \<open>
  C7.  When \<^verbatim>\<open>handleCurrencyInput\<close> reformats the field, whose caret was at
  \<open>oldCaretIndex\<close> within the old text, the new text is the formatted one and the new
  caret is \<open>max 0 (oldCaretIndex + (newLength - oldLength))\<close>, with an empty selection.
\<close>

theorem caret_after_reformat:
  assumes "elements (user w) target = Some input"
    and "selectionStart input \<le> length (el_value input)"
  shows "map_option el_value (elements (user (handleCurrencyInput P target w)) target)
           = Some (formatNumberWithCommas (el_value input))
       \<and> map_option (\<lambda>e. int (selectionStart e))
            (elements (user (handleCurrencyInput P target w)) target)
           = Some (max 0 (int (selectionStart input)
                + (int (length (formatNumberWithCommas (el_value input)))
                   - int (length (el_value input)))))
       \<and> map_option selectionEnd (elements (user (handleCurrencyInput P target w)) target)
           = map_option selectionStart (elements (user (handleCurrencyInput P target w)) target)"
  using assms
  by (simp add: handleCurrencyInput_def debouncedCalculate_def user_debounce Let_def
      setSelectionRange_def set_value_def)

theorem caret_after_reformat_witness:
  "map_option el_value
     (elements (user (handleCurrencyInput sample_platform ''monthlyTrail''
        (initial_world sample_page))) ''monthlyTrail'') = Some (str ''1,234'')
   \<and> map_option (\<lambda>e. int (selectionStart e))
     (elements (user (handleCurrencyInput sample_platform ''monthlyTrail''
        (initial_world sample_page))) ''monthlyTrail'') = Some 3"
proof -
  let ?input = "blank\<lparr>el_value := str ''1234'', selectionStart := 2, selectionEnd := 2\<rparr>"
  have a: "elements (user (initial_world sample_page)) ''monthlyTrail'' = Some ?input"
    by (simp add: initial_world_def sample_trail)
  have b: "selectionStart ?input \<le> length (el_value ?input)"
    by (simp add: str_def)
  have c: "length (str ''1,234'') = 5" "length (str ''1234'') = 4"
    by (simp_all add: str_def)
  show ?thesis
    using caret_after_reformat [OF a b, of sample_platform]
    by (simp add: format_1234 c)
qed

section \<open>The default purpose (C9)\<close>

text \<open>
  C9.  When no radio input of the purpose is checked, \<^verbatim>\<open>getSelectedPurpose\<close> returns
  \<^verbatim>\<open>'acquisition'\<close>, the figures are those of the 70% branch, and on a page that has the
  fields and the display targets \<^verbatim>\<open>calculate\<close> returns, having written
  "70% of book value" and "Acquisition Finance".
\<close>

theorem default_purpose:
  assumes "find (\<lambda>r. radio_name r = str ''loanPurpose'' \<and> checked r) (radios p) = None"
    and "\<forall>i \<in> set looked_up. elements p i \<noteq> None"
  shows "getSelectedPurpose p = str ''acquisition''
     \<and> accessPercent (derive m k (getSelectedPurpose p)) = str ''70%''
     \<and> accessLabel (derive m k (getSelectedPurpose p)) = str ''Acquisition Finance''
     \<and> accessAmount (derive m k (getSelectedPurpose p))
         = fmul (fmul (fmul m (Fin 12)) k) (num_of_rat (7 / 10))
     \<and> (\<exists>p'. calculate P p = Returned p'
          \<and> map_option textContent (elements p' ''accessPercent'')
              = Some (str ''70% of book value'')
          \<and> map_option textContent (elements p' ''accessLabel'')
              = Some (str ''Acquisition Finance''))"
proof -
  have g: "getSelectedPurpose p = str ''acquisition''"
    using assms(1) by (simp add: getSelectedPurpose_def)
  from assms(2) obtain e1 e2 where
    e: "elements p ''monthlyTrail'' = Some e1" "elements p ''bookMultiple'' = Some e2"
    by (auto simp add: looked_up_def)
  have d: "accessPercent (derive m' k' (str ''acquisition'')) = str ''70%''"
    "accessLabel (derive m' k' (str ''acquisition'')) = str ''Acquisition Finance''"
    "accessAmount (derive m' k' (str ''acquisition''))
       = fmul (fmul (fmul m' (Fin 12)) k') (num_of_rat (7 / 10))" for m' k'
    by (simp_all add: derive_def Let_def)
  from calculate_complete [OF e assms(2), of P]
  have "\<exists>p'. calculate P p = Returned p'
          \<and> map_option textContent (elements p' ''accessPercent'')
              = Some (str ''70% of book value'')
          \<and> map_option textContent (elements p' ''accessLabel'')
              = Some (str ''Acquisition Finance'')"
    unfolding g d str_append by auto
  then show ?thesis
    unfolding g d by simp
qed

theorem default_purpose_witness:
  "getSelectedPurpose (none_checked sample_page) = str ''acquisition''
   \<and> map_option textContent
        (elements (page_of (calculate sample_platform (none_checked sample_page))) ''accessPercent'')
       = Some (str ''70% of book value'')"
proof -
  have a: "find (\<lambda>r. radio_name r = str ''loanPurpose'' \<and> checked r)
             (radios (none_checked sample_page)) = None"
    by (simp add: none_checked_def sample_page_def)
  have b: "\<forall>i \<in> set looked_up. elements (none_checked sample_page) i \<noteq> None"
    by (simp add: none_checked_def sample_page_def looked_up_def)
  from default_purpose [OF a b, of "Fin 0" "Fin 0" sample_platform]
  show ?thesis
    by auto
qed

section \<open>A missing display target (C3)\<close>

text \<open>
  C3 says that a recomputation skips the update of a display target that is missing, still
  runs the remaining updates, and never throws.  On the sample page without the element
  \<^verbatim>\<open>bookValue\<close>, \<^verbatim>\<open>calculate\<close> throws a TypeError at that update: the targets before it
  are written, the three after it keep their old text, and the chart is not drawn although
  its canvas is there.  Only the canvas is guarded (\<open>calculate_without_canvas\<close>).
\<close>

theorem calculate_throws_without_bookValue:
  "(case calculate P (page_without ''bookValue'' sample_page) of
      Returned p' \<Rightarrow> False
    | Threw e p' \<Rightarrow>
        e = TypeError
        \<and> map_option textContent (elements p' ''displayMultiple'')
            = Some (toFixed P (read_multiple (str ''3'')) 1 @ str ''x'')
        \<and> map_option textContent (elements p' ''accessLabel'') = Some []
        \<and> map_option textContent (elements p' ''accessAmount'') = Some []
        \<and> map_option textContent (elements p' ''accessPercent'') = Some []
        \<and> elements p' ''comparisonChart'' = Some blank
        \<and> comparisonChart p' = None)"
  unfolding calculate_def Let_def
  by (simp add: page_without_def sample_page_def set_textContent_def blank_def)

section \<open>The debounce (C4)\<close>

text \<open>
  C4.  From a state in which at most one timer is pending, held by \<^verbatim>\<open>debounceTimer\<close> (as
  when the script is loaded): a call of the debounced function leaves exactly one timer,
  due 300 units later, carrying the arguments of that call; after any sequence of calls and
  pauses at most one timer is pending; and a burst of calls, each made less than 300 units
  after the one before, followed by a pause of at least 300 units, has the effect of one
  call of the function, with the arguments of the last call, and of nothing else.  With a
  function that records its calls, five such calls leave a record of one call, the last.
\<close>

theorem debounce_single_recomputation:
  assumes "single_flight w" and "\<forall>x \<in> set pre. snd x < DEBOUNCE_DELAY"
    and "DEBOUNCE_DELAY \<le> d"
  shows "user (run func (burst pre a @ [Elapse d]) w) = func a (user w)
     \<and> pending (run func (burst pre a @ [Elapse d]) w) = []
     \<and> user (run func (burst pre a) w) = user w
     \<and> pending (debounce func DEBOUNCE_DELAY a w) = [(next_handle w, now w + 300, func a)]
     \<and> (\<forall>es. length (pending (run func es w)) \<le> 1)"
proof -
  let ?w = "run func (burst pre a) w"
  from run_burst [OF assms(1,2), of func a]
  obtain h where u: "user ?w = user w"
    and p: "pending ?w = [(h, now ?w + DEBOUNCE_DELAY, func a)]"
    by blast
  have e: "elapse d ?w = ?w\<lparr>user := func a (user ?w), pending := [], now := now ?w + d\<rparr>"
    using p assms(3) by (rule elapse_late)
  have r: "run func (burst pre a @ [Elapse d]) w = elapse d ?w"
    by (simp add: run_append) (simp add: run_def)
  have "\<forall>es. length (pending (run func es w)) \<le> 1"
    by (intro allI single_flight_length single_flight_run assms(1))
  moreover have "pending (debounce func DEBOUNCE_DELAY a w) = [(next_handle w, now w + 300, func a)]"
    by (simp add: debounce_single_flight [OF assms(1)] DEBOUNCE_DELAY_def)
  ultimately show ?thesis
    unfolding r by (simp add: e u)
qed

theorem debounce_single_recomputation_witness:
  "user (run record_call
      (burst [(''a'', 50), (''b'', 299), (''c'', 0), (''d'', 120)] ''e'' @ [Elapse 300])
      (initial_world [])) = [''e'']
   \<and> pending (run record_call
      (burst [(''a'', 50), (''b'', 299), (''c'', 0), (''d'', 120)] ''e'' @ [Elapse 300])
      (initial_world [])) = []"
proof -
  have a: "single_flight (initial_world ([] :: string list))"
    by (rule single_flight_initial)
  have b: "\<forall>x \<in> set [(''a'', 50), (''b'', 299), (''c'', 0), (''d'', 120 :: nat)].
             snd x < DEBOUNCE_DELAY"
    by (simp add: DEBOUNCE_DELAY_def)
  have c: "DEBOUNCE_DELAY \<le> 300"
    by (simp add: DEBOUNCE_DELAY_def)
  from debounce_single_recomputation [OF a b c, of record_call "''e''"]
  show ?thesis
    by (simp add: record_call_def initial_world_def)
qed

end
